theory Spec2Isabelle
  imports Complex_Main
begin

section \<open>Tensor entries\<close>

text \<open>
  The kernels of \<^verbatim>\<open>common/falkon_kernels.py\<close> compute on floating-point tensors. The
  embedding keeps the arithmetic exact (real numbers, no rounding, no overflow) and adds
  the three special values a division by zero or an argument outside a function's domain
  produces: both infinities and NaN. Point coordinates, norms, labels and hyperparameters
  are finite reals; a computed tensor entry is a value of type \<open>fl\<close>. Zero is the
  positive zero, as the norms the code divides by are square roots.
\<close>

datatype fl = Fin real | PInf | NInf | NaN

fun fneg :: "fl \<Rightarrow> fl" where
  "fneg (Fin a) = Fin (- a)"
| "fneg PInf = NInf"
| "fneg NInf = PInf"
| "fneg NaN = NaN"

fun fadd :: "fl \<Rightarrow> fl \<Rightarrow> fl" where
  "fadd (Fin a) (Fin b) = Fin (a + b)"
| "fadd (Fin a) PInf = PInf"
| "fadd (Fin a) NInf = NInf"
| "fadd PInf (Fin b) = PInf"
| "fadd NInf (Fin b) = NInf"
| "fadd PInf PInf = PInf"
| "fadd NInf NInf = NInf"
| "fadd PInf NInf = NaN"
| "fadd NInf PInf = NaN"
| "fadd NaN y = NaN"
| "fadd x NaN = NaN"

definition fsub :: "fl \<Rightarrow> fl \<Rightarrow> fl" where
  "fsub x y = fadd x (fneg y)"

definition signed_inf :: "real \<Rightarrow> fl" where
  "signed_inf a = (if a = 0 then NaN else if 0 < a then PInf else NInf)"

fun fmul :: "fl \<Rightarrow> fl \<Rightarrow> fl" where
  "fmul (Fin a) (Fin b) = Fin (a * b)"
| "fmul (Fin a) PInf = signed_inf a"
| "fmul (Fin a) NInf = signed_inf (- a)"
| "fmul PInf (Fin b) = signed_inf b"
| "fmul NInf (Fin b) = signed_inf (- b)"
| "fmul PInf PInf = PInf"
| "fmul NInf NInf = PInf"
| "fmul PInf NInf = NInf"
| "fmul NInf PInf = NInf"
| "fmul NaN y = NaN"
| "fmul x NaN = NaN"

fun fdiv :: "fl \<Rightarrow> fl \<Rightarrow> fl" where
  "fdiv (Fin a) (Fin b) = (if b = 0 then signed_inf a else Fin (a / b))"
| "fdiv (Fin a) PInf = Fin 0"
| "fdiv (Fin a) NInf = Fin 0"
| "fdiv PInf (Fin b) = (if 0 \<le> b then PInf else NInf)"
| "fdiv NInf (Fin b) = (if 0 \<le> b then NInf else PInf)"
| "fdiv PInf PInf = NaN"
| "fdiv NInf NInf = NaN"
| "fdiv PInf NInf = NaN"
| "fdiv NInf PInf = NaN"
| "fdiv NaN y = NaN"
| "fdiv x NaN = NaN"

text \<open>\<^verbatim>\<open>torch.clamp(x, lo, hi)\<close> is \<open>min (max x lo) hi\<close> and keeps NaN.\<close>

fun fclamp :: "fl \<Rightarrow> real \<Rightarrow> real \<Rightarrow> fl" where
  "fclamp (Fin a) lo hi = Fin (min (max a lo) hi)"
| "fclamp PInf lo hi = Fin hi"
| "fclamp NInf lo hi = Fin (min lo hi)"
| "fclamp NaN lo hi = NaN"

text \<open>\<^verbatim>\<open>torch.acos\<close> returns NaN outside \<open>[-1, 1]\<close>; it does not raise.\<close>

fun facos :: "fl \<Rightarrow> fl" where
  "facos (Fin a) = (if - 1 \<le> a \<and> a \<le> 1 then Fin (arccos a) else NaN)"
| "facos PInf = NaN"
| "facos NInf = NaN"
| "facos NaN = NaN"

fun fsin :: "fl \<Rightarrow> fl" where
  "fsin (Fin a) = Fin (sin a)"
| "fsin PInf = NaN"
| "fsin NInf = NaN"
| "fsin NaN = NaN"

fun fexp :: "fl \<Rightarrow> fl" where
  "fexp (Fin a) = Fin (exp a)"
| "fexp PInf = PInf"
| "fexp NInf = Fin 0"
| "fexp NaN = NaN"

text \<open>
  \<^verbatim>\<open>torch.pow(x, g)\<close> with a finite exponent: anything to the power zero is one (also
  NaN), zero to a negative power is infinite, a negative base has a power only for an
  integer exponent.
\<close>

definition is_integer :: "real \<Rightarrow> bool" where
  "is_integer g = (g = of_int \<lfloor>g\<rfloor>)"

definition is_odd_integer :: "real \<Rightarrow> bool" where
  "is_odd_integer g = (is_integer g \<and> odd \<lfloor>g\<rfloor>)"

fun fpow :: "fl \<Rightarrow> real \<Rightarrow> fl" where
  "fpow (Fin b) g =
     (if g = 0 then Fin 1
      else if 0 < b then Fin (b powr g)
      else if b = 0 then (if 0 < g then Fin 0 else PInf)
      else if is_integer g then Fin ((if is_odd_integer g then - 1 else 1) * (\<bar>b\<bar> powr g))
      else NaN)"
| "fpow PInf g = (if g = 0 then Fin 1 else if 0 < g then PInf else Fin 0)"
| "fpow NInf g =
     (if g = 0 then Fin 1
      else if 0 < g then (if is_odd_integer g then NInf else PInf)
      else Fin 0)"
| "fpow NaN g = (if g = 0 then Fin 1 else NaN)"

section \<open>Point sets\<close>

text \<open>
  A point set is a tensor of shape \<open>[s, d]\<close>: a list of \<open>s\<close> rows, each a list of \<open>d\<close>
  finite coordinates. The functions below are the code's on operands of one feature
  dimension \<open>d\<close>; the theorems state that as \<open>pointset d X\<close>.
\<close>

type_synonym vec = "real list"
type_synonym pointset = "real list list"

definition pointset :: "nat \<Rightarrow> pointset \<Rightarrow> bool" where
  "pointset d X = list_all (\<lambda>x. length x = d) X"

text \<open>\<^verbatim>\<open>(x * xp).sum(-1)\<close> for one row of each operand.\<close>

definition row_dot :: "vec \<Rightarrow> vec \<Rightarrow> real" where
  "row_dot x xp = sum_list (map2 (*) x xp)"

text \<open>\<^verbatim>\<open>torch.norm(x, dim=-1)\<close> for one row.\<close>

definition torch_norm :: "vec \<Rightarrow> real" where
  "torch_norm x = sqrt (sum_list (map (\<lambda>a. a * a) x))"

section \<open>The closed-form kernels\<close>

text \<open>
  \<^verbatim>\<open>k_spherical_laplace\<close>, \<^verbatim>\<open>k_arccos\<close> and \<^verbatim>\<open>k_ntk\<close> first reduce their operands to the
  tensors \<open>x_dot_xp\<close> and \<open>norm_x_xp\<close> and then work entry by entry. In floating point an
  entry of those two tensors is whatever the reductions round, underflow or overflow to:
  the quotient of two such entries can exceed \<open>1\<close>, be infinite or be NaN. The lines after
  the reductions are therefore functions of the two computed entries, of type \<open>fl\<close>, and
  the kernels on points instantiate them with the exact values.

  \<^verbatim>\<open>cos_alpha_x = torch.clamp(x_dot_xp / norm_x_xp, -1.0, 1.0)\<close>, the line the three
  functions share, at entry \<open>(i, j)\<close>, for \<open>x\<close> the \<open>i\<close>-th row of the first operand and \<open>xp\<close>
  the \<open>j\<close>-th row of the second.
\<close>

definition clamp_cos :: "fl \<Rightarrow> fl \<Rightarrow> fl" where
  "clamp_cos x_dot_xp norm_x_xp = fclamp (fdiv x_dot_xp norm_x_xp) (- 1) 1"

definition cos_alpha_x :: "vec \<Rightarrow> vec \<Rightarrow> fl" where
  "cos_alpha_x x xp = clamp_cos (Fin (row_dot x xp)) (Fin (torch_norm x * torch_norm xp))"

definition k_arccos_tail :: "fl \<Rightarrow> fl \<Rightarrow> fl" where
  "k_arccos_tail x_dot_xp norm_x_xp =
     (let cos_alpha = clamp_cos x_dot_xp norm_x_xp;
          alpha_x = facos cos_alpha;
          sin_alpha_x = fsin alpha_x;
          K = fmul norm_x_xp (fadd sin_alpha_x (fmul (fsub (Fin pi) alpha_x) cos_alpha))
      in fdiv K (Fin pi))"

definition k_arccos_entry :: "vec \<Rightarrow> vec \<Rightarrow> fl" where
  "k_arccos_entry x xp =
     k_arccos_tail (Fin (row_dot x xp)) (Fin (torch_norm x * torch_norm xp))"

definition k_arccos :: "pointset \<Rightarrow> pointset \<Rightarrow> fl list list" where
  "k_arccos x xp = map (\<lambda>xi. map (\<lambda>xj. k_arccos_entry xi xj) xp) x"

definition k_ntk_tail :: "fl \<Rightarrow> fl \<Rightarrow> real \<Rightarrow> fl" where
  "k_ntk_tail x_dot_xp norm_x_xp variance =
     (let cos_alpha = clamp_cos x_dot_xp norm_x_xp;
          alpha_x = facos cos_alpha;
          sin_alpha_x = fsin alpha_x;
          K = fmul norm_x_xp
                (fadd sin_alpha_x
                   (fmul (fmul (Fin (1 + variance)) (fsub (Fin pi) alpha_x)) cos_alpha))
      in fdiv K (Fin pi))"

definition k_ntk_entry :: "vec \<Rightarrow> vec \<Rightarrow> real \<Rightarrow> fl" where
  "k_ntk_entry x xp variance =
     k_ntk_tail (Fin (row_dot x xp)) (Fin (torch_norm x * torch_norm xp)) variance"

definition k_ntk :: "pointset \<Rightarrow> pointset \<Rightarrow> real \<Rightarrow> fl list list" where
  "k_ntk x xp variance = map (\<lambda>xi. map (\<lambda>xj. k_ntk_entry xi xj variance) xp) x"

text \<open>
  \<^verbatim>\<open>torch.exp(alpha * torch.pow(1.0 - cos_alpha_x, gamma))\<close> at one entry, and the whole
  of \<^verbatim>\<open>k_spherical_laplace\<close>. The code applies \<^verbatim>\<open>.squeeze(-1)\<close> to the \<open>[s1, s2]\<close> tensor of
  exponentials: when \<open>s2 = 1\<close> that drops the last axis, and the product with the
  \<open>[s1, 1]\<close> tensor of norms then broadcasts to shape \<open>[s1, s1]\<close>, entry \<open>(i, j)\<close> being
  the norm product of row \<open>i\<close> times the exponential of row \<open>j\<close>.
\<close>

definition laplace_exp_tail :: "fl \<Rightarrow> fl \<Rightarrow> real \<Rightarrow> real \<Rightarrow> fl" where
  "laplace_exp_tail x_dot_xp norm_x_xp gamma alpha =
     fexp (fmul (Fin alpha) (fpow (fsub (Fin 1) (clamp_cos x_dot_xp norm_x_xp)) gamma))"

definition laplace_exp :: "vec \<Rightarrow> vec \<Rightarrow> real \<Rightarrow> real \<Rightarrow> fl" where
  "laplace_exp x xp gamma alpha =
     laplace_exp_tail (Fin (row_dot x xp)) (Fin (torch_norm x * torch_norm xp)) gamma alpha"

definition k_spherical_laplace :: "pointset \<Rightarrow> pointset \<Rightarrow> real \<Rightarrow> real \<Rightarrow> fl list list" where
  "k_spherical_laplace x xp gamma alpha =
     (if length xp = 1
      then map (\<lambda>xi. map (\<lambda>xj. fmul (Fin (torch_norm xi * torch_norm (hd xp)))
                                  (laplace_exp xj (hd xp) gamma alpha)) x) x
      else map (\<lambda>xi. map (\<lambda>xj. fmul (Fin (torch_norm xi * torch_norm xj))
                                  (laplace_exp xi xj gamma alpha)) xp) x)"

section \<open>Hyperparameters and kernel objects\<close>

text \<open>
  A Python value handed to a constructor as a hyperparameter: a plain number, a tensor
  (its elements, flattened), or an object that \<^verbatim>\<open>float()\<close> rejects with a
  \<^verbatim>\<open>TypeError\<close> (\<^verbatim>\<open>None\<close>, a list).
\<close>

datatype py_error = ValueError string | TypeError string | AttributeError string
  | NotImplementedError string | RuntimeError string | ImportError string

datatype py_value = PyNumber real | PyTensor "real list" | PyNonNumeric

text \<open>
  \<^verbatim>\<open>tensor.item()\<close> works on a tensor of exactly one element and raises on any other; the
  code expects a \<^verbatim>\<open>ValueError\<close> there and raises its own.
\<close>

definition extract_float :: "py_value \<Rightarrow> py_error + real" where
  "extract_float d =
     (case d of
        PyTensor es \<Rightarrow> (case es of [e] \<Rightarrow> Inr e | _ \<Rightarrow> Inl (ValueError ''Item is not a scalar''))
      | PyNumber r \<Rightarrow> Inr r
      | PyNonNumeric \<Rightarrow> Inl (TypeError ''Item must be a scalar or a tensor.''))"

text \<open>
  The three kernel classes with the attributes their constructors store.
  \<^verbatim>\<open>LaplaceKernelSphere.__init__\<close> passes \<open>alpha\<close> and \<open>gamma\<close> through
  \<^verbatim>\<open>extract_float\<close>; \<^verbatim>\<open>NeuralTangentKernel.__init__\<close> stores \<open>variance\<close> as it is given;
  \<^verbatim>\<open>ArcCosineKernel.__init__\<close> takes no hyperparameter.
\<close>

datatype kernel = ArcCosineKernel | NeuralTangentKernel py_value | LaplaceKernelSphere real real

definition ArcCosineKernel_init :: "py_error + kernel" where
  "ArcCosineKernel_init = Inr ArcCosineKernel"

definition NeuralTangentKernel_init :: "py_value \<Rightarrow> py_error + kernel" where
  "NeuralTangentKernel_init variance = Inr (NeuralTangentKernel variance)"

definition LaplaceKernelSphere_init :: "py_value \<Rightarrow> py_value \<Rightarrow> py_error + kernel" where
  "LaplaceKernelSphere_init alpha gamma =
     (case extract_float alpha of
        Inl e \<Rightarrow> Inl e
      | Inr a \<Rightarrow> (case extract_float gamma of
                   Inl e \<Rightarrow> Inl e
                 | Inr g \<Rightarrow> Inr (LaplaceKernelSphere a g)))"

text \<open>
  \<^verbatim>\<open>direct_kernel\<close> of each class. \<^verbatim>\<open>NeuralTangentKernel.direct_kernel\<close> returns
  \<^verbatim>\<open>k_arccos(X1, X2)\<close>: it reads neither \<^verbatim>\<open>self.variance\<close> nor \<^verbatim>\<open>k_ntk\<close>.
  \<^verbatim>\<open>LaplaceKernelSphere.direct_kernel\<close> calls
  \<^verbatim>\<open>k_spherical_laplace(X1, X2, self.gamma, self.alpha)\<close>.
\<close>

fun direct_kernel :: "kernel \<Rightarrow> pointset \<Rightarrow> pointset \<Rightarrow> fl list list" where
  "direct_kernel ArcCosineKernel X1 X2 = k_arccos X1 X2"
| "direct_kernel (NeuralTangentKernel variance) X1 X2 = k_arccos X1 X2"
| "direct_kernel (LaplaceKernelSphere alpha gamma) X1 X2 = k_spherical_laplace X1 X2 gamma alpha"

section \<open>The staged path\<close>

text \<open>
  The staged path of the Falkon driver calls \<^verbatim>\<open>_prepare(X1, X2)\<close>, then
  \<^verbatim>\<open>_apply(X1, X2.T, out)\<close> on a buffer \<open>out\<close> of shape \<open>[s1, s2]\<close>, then
  \<^verbatim>\<open>_finalize(out, params)\<close>. \<open>tensor_T d X\<close> is \<^verbatim>\<open>X.T\<close> for \<open>X\<close> with \<open>d\<close> columns.
\<close>

definition col :: "nat \<Rightarrow> real list list \<Rightarrow> real list" where
  "col j M = map (\<lambda>row. row ! j) M"

definition tensor_T :: "nat \<Rightarrow> real list list \<Rightarrow> real list list" where
  "tensor_T d X = map (\<lambda>k. col k X) [0..<d]"

definition ncols :: "'a list list \<Rightarrow> nat" where
  "ncols M = (case M of [] \<Rightarrow> 0 | r # _ \<Rightarrow> length r)"

definition zeros :: "nat \<Rightarrow> nat \<Rightarrow> real list list" where
  "zeros n m = replicate n (replicate m 0)"

text \<open>
  \<^verbatim>\<open>torch.mm(M1, M2)\<close> with \<open>m\<close> columns, and \<^verbatim>\<open>out.addmm_(M1, M2)\<close>, which adds that
  product to the contents of \<open>out\<close>.
\<close>

definition mm :: "real list list \<Rightarrow> real list list \<Rightarrow> nat \<Rightarrow> real list list" where
  "mm M1 M2 m = map (\<lambda>r. map (\<lambda>j. row_dot r (col j M2)) [0..<m]) M1"

definition addmm :: "real list list \<Rightarrow> real list list \<Rightarrow> real list list \<Rightarrow> real list list" where
  "addmm out M1 M2 =
     map2 (\<lambda>orow r. map2 (\<lambda>ov j. ov + row_dot r (col j M2)) orow [0..<length orow]) out M1"


definition ArcCosineKernel_apply ::
    "real list list \<Rightarrow> real list list \<Rightarrow> real list list \<Rightarrow> real list list" where
  "ArcCosineKernel_apply X1 X2 out = addmm out X1 X2"

text \<open>
  The in-place chain of \<^verbatim>\<open>ArcCosineKernel._finalize\<close> on one entry \<open>A\<close> of the block, with
  \<open>n1\<close> the norm of its row's point and \<open>n2\<close> the norm of its column's point.
\<close>

definition ArcCosineKernel_finalize_entry :: "fl \<Rightarrow> real \<Rightarrow> real \<Rightarrow> fl" where
  "ArcCosineKernel_finalize_entry A n1 n2 =
     (let A1 = fdiv A (Fin n1);
          A2 = fdiv A1 (Fin n2);
          A3 = fclamp A2 (- 1) 1;
          B = facos A3;
          C = fsin B;
          B1 = fmul B (Fin (- 1));
          B2 = fadd B1 (Fin pi);
          A4 = fmul A3 B2;
          A5 = fadd A4 C;
          A6 = fmul A5 (Fin n1);
          A7 = fmul A6 (Fin n2)
      in fdiv A7 (Fin pi))"



definition LaplaceKernelSphere_prepare :: "pointset \<Rightarrow> pointset \<Rightarrow> real list \<times> real list" where
  "LaplaceKernelSphere_prepare X1 X2 = (map torch_norm X1, map torch_norm X2)"

definition LaplaceKernelSphere_apply ::
    "real list list \<Rightarrow> real list list \<Rightarrow> real list list \<Rightarrow> real list list" where
  "LaplaceKernelSphere_apply X1 X2 out = addmm out X1 X2"

definition LaplaceKernelSphere_finalize_entry :: "real \<Rightarrow> real \<Rightarrow> fl \<Rightarrow> real \<Rightarrow> real \<Rightarrow> fl" where
  "LaplaceKernelSphere_finalize_entry alpha gamma A n1 n2 =
     (let A1 = fdiv A (Fin n1);
          A2 = fdiv A1 (Fin n2);
          A3 = fclamp A2 (- 1) 1;
          A4 = fmul A3 (Fin (- 1));
          A5 = fadd A4 (Fin 1);
          A6 = fpow A5 gamma;
          A7 = fmul A6 (Fin alpha);
          A8 = fexp A7;
          A9 = fmul A8 (Fin n1)
      in fmul A9 (Fin n2))"

definition LaplaceKernelSphere_finalize ::
    "real \<Rightarrow> real \<Rightarrow> fl list list \<Rightarrow> real list \<times> real list \<Rightarrow> fl list list" where
  "LaplaceKernelSphere_finalize alpha gamma A d =
     (case d of (n1, n2) \<Rightarrow>
        map2 (\<lambda>row n1i. map2 (\<lambda>a n2j. LaplaceKernelSphere_finalize_entry alpha gamma a n1i n2j)
                            row n2) A n1)"

definition LaplaceKernelSphere_staged ::
    "real \<Rightarrow> real \<Rightarrow> nat \<Rightarrow> pointset \<Rightarrow> pointset \<Rightarrow> fl list list" where
  "LaplaceKernelSphere_staged alpha gamma d X1 X2 =
     (let params = LaplaceKernelSphere_prepare X1 X2;
          out = LaplaceKernelSphere_apply X1 (tensor_T d X2) (zeros (length X1) (length X2))
      in LaplaceKernelSphere_finalize alpha gamma (map (map Fin) out) params)"

subsection \<open>The device kernel of the neural-tangent class\<close>

text \<open>
  \<^verbatim>\<open>atan2(y, x)\<close> of the C library, on finite arguments.
\<close>

definition atan2 :: "real \<Rightarrow> real \<Rightarrow> real" where
  "atan2 y x =
     (if 0 < x then arctan (y / x)
      else if x < 0 then (if 0 \<le> y then arctan (y / x) + pi else arctan (y / x) - pi)
      else if 0 < y then pi / 2
      else if y < 0 then - (pi / 2)
      else 0)"

text \<open>
  The two loops of \<^verbatim>\<open>stable_kernel\<close> over \<open>k < D\<close>, on row \<open>I\<close> of \<open>x1\<close> and row \<open>J\<close> of
  \<open>x2\<close>; \<^verbatim>\<open>fma(a, b, c)\<close> is \<open>a * b + c\<close>.
\<close>

fun norm_loop :: "real list \<Rightarrow> real list \<Rightarrow> real \<times> real \<Rightarrow> real \<times> real" where
  "norm_loop (a # as) (b # bs) (norm_x, norm_y) = norm_loop as bs (a * a + norm_x, b * b + norm_y)"
| "norm_loop [] bs acc = acc"
| "norm_loop as [] acc = acc"

fun arg_loop :: "real \<Rightarrow> real \<Rightarrow> real list \<Rightarrow> real list \<Rightarrow> real \<times> real \<Rightarrow> real \<times> real" where
  "arg_loop norm_x norm_y (x1_ik # as) (x2_jk # bs) (arg1, arg2) =
     (let a1 = norm_y * x1_ik - norm_x * x2_jk;
          a2 = norm_y * x1_ik + norm_x * x2_jk
      in arg_loop norm_x norm_y as bs (a1 * a1 + arg1, a2 * a2 + arg2))"
| "arg_loop norm_x norm_y [] bs acc = acc"
| "arg_loop norm_x norm_y as [] acc = acc"

definition stable_kernel :: "real list \<Rightarrow> real list \<Rightarrow> real \<Rightarrow> real" where
  "stable_kernel x1 x2 variance =
     (let (sx, sy) = norm_loop x1 x2 (0, 0);
          norm_x = sqrt sx;
          norm_y = sqrt sy;
          (s1, s2) = arg_loop norm_x norm_y x1 x2 (0, 0);
          arg1 = sqrt s1;
          arg2 = sqrt s2;
          angle = 2 * atan2 arg1 arg2;
          norm_xy = norm_x * norm_y;
          cos_angle = cos angle;
          sin_angle = sin angle;
          opv = 1 + variance
      in norm_xy * (sin_angle + opv * (pi - angle) * cos_angle) / pi)"

text \<open>\<^verbatim>\<open>float(v)\<close> on a hyperparameter value.\<close>

definition py_float :: "py_value \<Rightarrow> py_error + real" where
  "py_float v =
     (case v of
        PyNumber r \<Rightarrow> Inr r
      | PyTensor es \<Rightarrow>
          (case es of [e] \<Rightarrow> Inr e
           | _ \<Rightarrow> Inl (ValueError ''only one element tensors can be converted to Python scalars''))
      | PyNonNumeric \<Rightarrow> Inl (TypeError ''float() argument must be a string or a number''))"

definition NeuralTangentKernel_prepare :: "pointset \<Rightarrow> pointset \<Rightarrow> real list list" where
  "NeuralTangentKernel_prepare X1 X2 = []"

text \<open>
  The launch of \<^verbatim>\<open>NeuralTangentKernel._apply\<close>. The code computes
  \<^verbatim>\<open>threads = (16, 16)\<close> and \<^verbatim>\<open>blocks = ((N + 15) // 16, (M + 15) // 16)\<close> and calls
  \<^verbatim>\<open>kernel(threads, blocks, args)\<close>; the \<^verbatim>\<open>RawKernel\<close> of CuPy takes the grid first and the
  thread block second. So the grid is \<open>16 \<times> 16\<close> and the thread block is \<open>blocks\<close>: every
  index pair \<open>I < N\<close>, \<open>J < M\<close> is still covered, and the launch is refused when a
  dimension of the block is zero or the block has more threads than the device allows.
\<close>

definition max_threads_per_block :: nat where
  "max_threads_per_block = 1024"

definition launch_blocks :: "nat \<Rightarrow> nat \<Rightarrow> nat \<times> nat" where
  "launch_blocks N M = ((N + 16 - 1) div 16, (M + 16 - 1) div 16)"

definition launch_valid :: "nat \<times> nat \<Rightarrow> bool" where
  "launch_valid block =
     (0 < fst block \<and> 0 < snd block \<and> fst block * snd block \<le> max_threads_per_block)"

text \<open>
  \<^verbatim>\<open>NeuralTangentKernel._apply\<close>, with \<open>cupy\<close> telling whether \<^verbatim>\<open>import cupy\<close> succeeds on
  the machine. The method imports CuPy, transposes its second operand back, converts
  \<^verbatim>\<open>self.variance\<close> with \<^verbatim>\<open>float\<close> and launches \<^verbatim>\<open>stable_kernel\<close>, which stores \<open>K\<close> at
  \<open>out[I * M + J]\<close> for every \<open>I < N\<close>, \<open>J < M\<close>: the former contents of \<open>out\<close> are
  overwritten.
\<close>

definition NeuralTangentKernel_apply_env ::
    "bool \<Rightarrow> py_value \<Rightarrow> real list list \<Rightarrow> real list list \<Rightarrow> real list list
      \<Rightarrow> py_error + real list list" where
  "NeuralTangentKernel_apply_env cupy variance X1 X2 out =
     (if \<not> cupy then Inl (ImportError ''No module named cupy'')
      else
        let X2' = tensor_T (ncols X2) X2;
            dims = (length X1, length X2');
            blocks = launch_blocks (fst dims) (snd dims)
        in case py_float variance of
             Inl e \<Rightarrow> Inl e
           | Inr v \<Rightarrow>
               if launch_valid blocks
               then Inr (map (\<lambda>x1. map (\<lambda>x2. stable_kernel x1 x2 v) X2') X1)
               else Inl (RuntimeError ''CUDA_ERROR_INVALID_VALUE''))"

text \<open>The method on a machine where CuPy is installed.\<close>

definition NeuralTangentKernel_apply ::
    "py_value \<Rightarrow> real list list \<Rightarrow> real list list \<Rightarrow> real list list \<Rightarrow> py_error + real list list" where
  "NeuralTangentKernel_apply variance X1 X2 out = NeuralTangentKernel_apply_env True variance X1 X2 out"

definition NeuralTangentKernel_finalize :: "real list list \<Rightarrow> real list list \<Rightarrow> real list list" where
  "NeuralTangentKernel_finalize A d = A"

definition NeuralTangentKernel_staged_env ::
    "bool \<Rightarrow> py_value \<Rightarrow> nat \<Rightarrow> pointset \<Rightarrow> pointset \<Rightarrow> py_error + real list list" where
  "NeuralTangentKernel_staged_env cupy variance d X1 X2 =
     (let params = NeuralTangentKernel_prepare X1 X2
      in case NeuralTangentKernel_apply_env cupy variance X1 (tensor_T d X2)
                (zeros (length X1) (length X2)) of
           Inl e \<Rightarrow> Inl e
         | Inr out \<Rightarrow> Inr (NeuralTangentKernel_finalize out params))"

definition NeuralTangentKernel_staged ::
    "py_value \<Rightarrow> nat \<Rightarrow> pointset \<Rightarrow> pointset \<Rightarrow> py_error + real list list" where
  "NeuralTangentKernel_staged variance d X1 X2 =
     (let params = NeuralTangentKernel_prepare X1 X2
      in case NeuralTangentKernel_apply variance X1 (tensor_T d X2) (zeros (length X1) (length X2)) of
           Inl e \<Rightarrow> Inl e
         | Inr out \<Rightarrow> Inr (NeuralTangentKernel_finalize out params))"

section \<open>The symbolic path\<close>

text \<open>
  \<^verbatim>\<open>_keops_mmv_impl\<close> of each class hands the KeOps engine a formula in \<open>X\<close>, a row of
  \<open>X1\<close>, \<open>Y\<close>, a row of \<open>X2\<close>, and \<open>v\<close>, the row of the operand \<open>v\<close> that belongs to \<open>Y\<close>,
  and the engine sums the formula over the rows of \<open>X2\<close>. The operations of the engine are
  library code; they are given their documented values: \<open>Norm2\<close> the Euclidean norm,
  \<open>(a | b)\<close> the scalar product, \<open>Normalize(a) = Rsqrt(SqNorm2(a)) * a\<close> where the
  engine sets \<open>Rsqrt(0) = 0\<close>, \<open>Clamp11\<close> the clamp to \<open>[-1, 1]\<close>, and \<open>Acos\<close>, \<open>Sin\<close>,
  \<open>Cos\<close>, \<open>Atan2\<close>, \<open>Exp\<close>, \<open>Powf\<close> as in the C library.
\<close>

definition keops_Rsqrt :: "real \<Rightarrow> real" where
  "keops_Rsqrt s = (if s = 0 then 0 else 1 / sqrt s)"

definition keops_Normalize :: "vec \<Rightarrow> vec" where
  "keops_Normalize a = map (\<lambda>c. keops_Rsqrt (sum_list (map (\<lambda>c. c * c) a)) * c) a"

text \<open>
  The formula of \<^verbatim>\<open>ArcCosineKernel._keops_mmv_impl\<close> up to the factor \<open>v\<close>:
  \<^verbatim>\<open>((norm_xy / pi) * j1)\<close> with \<^verbatim>\<open>j1 = Sin(theta) + (pi - theta) * cos_theta\<close> and
  \<^verbatim>\<open>theta = Acos(cos_theta)\<close>, as a function of the computed values of \<open>norm_xy\<close> and
  \<open>cos_theta\<close>. The formula applies no clamp to \<open>cos_theta\<close>.
\<close>

definition ArcCosineKernel_keops_tail :: "fl \<Rightarrow> fl \<Rightarrow> fl" where
  "ArcCosineKernel_keops_tail norm_xy cos_theta =
     (let theta = facos cos_theta;
          j1 = fadd (fsin theta) (fmul (fsub (Fin pi) theta) cos_theta)
      in fmul (fdiv norm_xy (Fin pi)) j1)"

definition ArcCosineKernel_keops_formula :: "vec \<Rightarrow> vec \<Rightarrow> fl" where
  "ArcCosineKernel_keops_formula X Y =
     ArcCosineKernel_keops_tail (Fin (torch_norm X * torch_norm Y))
       (Fin (row_dot (keops_Normalize X) (keops_Normalize Y)))"


text \<open>
  The formula of \<^verbatim>\<open>LaplaceKernelSphere._keops_mmv_impl\<close> up to the factor \<open>v\<close>:
  \<^verbatim>\<open>Norm2(X) * Norm2(Y) * Exp(alpha * Powf(one - Clamp11((Normalize(X) | Normalize(Y))), gamma))\<close>,
  as a function of the computed norm product and scalar product.
\<close>

definition LaplaceKernelSphere_keops_tail :: "real \<Rightarrow> real \<Rightarrow> fl \<Rightarrow> fl \<Rightarrow> fl" where
  "LaplaceKernelSphere_keops_tail alpha gamma norm_xy cos_theta =
     fmul norm_xy
       (fexp (fmul (Fin alpha) (fpow (fsub (Fin 1) (fclamp cos_theta (- 1) 1)) gamma)))"

definition LaplaceKernelSphere_keops_formula :: "real \<Rightarrow> real \<Rightarrow> vec \<Rightarrow> vec \<Rightarrow> fl" where
  "LaplaceKernelSphere_keops_formula alpha gamma X Y =
     LaplaceKernelSphere_keops_tail alpha gamma (Fin (torch_norm X * torch_norm Y))
       (Fin (row_dot (keops_Normalize X) (keops_Normalize Y)))"

text \<open>
  \<^verbatim>\<open>keops_mmv\<close>: row \<open>i\<close> of the result is the sum over \<open>j\<close> of the formula at row \<open>i\<close> of
  \<open>X1\<close> and row \<open>j\<close> of \<open>X2\<close>, times row \<open>j\<close> of \<open>v\<close>, for an operand \<open>v\<close> with one row
  for each row of \<open>X2\<close>.
\<close>

definition keops_mmv ::
    "(vec \<Rightarrow> vec \<Rightarrow> fl) \<Rightarrow> pointset \<Rightarrow> pointset \<Rightarrow> real list list \<Rightarrow> fl list list" where
  "keops_mmv formula X1 X2 v =
     map (\<lambda>X. foldl (map2 fadd) (replicate (ncols v) (Fin 0))
                 (map2 (\<lambda>Y vj. map (\<lambda>c. fmul (formula X Y) (Fin c)) vj) X2 v)) X1"



definition LaplaceKernelSphere_keops_mmv ::
    "real \<Rightarrow> real \<Rightarrow> pointset \<Rightarrow> pointset \<Rightarrow> real list list \<Rightarrow> fl list list" where
  "LaplaceKernelSphere_keops_mmv alpha gamma X1 X2 v =
     keops_mmv (LaplaceKernelSphere_keops_formula alpha gamma) X1 X2 v"

section \<open>The dense solver\<close>

text \<open>
  \<^verbatim>\<open>M @ v\<close> for a matrix and a vector of tensor entries; torch raises when the row
  length of \<open>M\<close> is not the length of \<open>v\<close>.
\<close>

definition fl_dot :: "fl list \<Rightarrow> fl list \<Rightarrow> fl" where
  "fl_dot r v = foldl fadd (Fin 0) (map2 fmul r v)"

definition matvec :: "fl list list \<Rightarrow> fl list \<Rightarrow> py_error + fl list" where
  "matvec M v =
     (if list_all (\<lambda>r. length r = length v) M then Inr (map (\<lambda>r. fl_dot r v) M)
      else Inl (RuntimeError ''size mismatch''))"

text \<open>\<^verbatim>\<open>Kxx + self.penalty * torch.eye(Kxx.shape[0], Kxx.shape[1])\<close>.\<close>

definition torch_eye :: "nat \<Rightarrow> nat \<Rightarrow> real list list" where
  "torch_eye n m = map (\<lambda>i. map (\<lambda>j. if i = j then 1 else 0) [0..<m]) [0..<n]"

definition add_penalty :: "fl list list \<Rightarrow> real \<Rightarrow> fl list list" where
  "add_penalty Kxx penalty =
     map2 (map2 (\<lambda>k e. fadd k (Fin (penalty * e)))) Kxx (torch_eye (length Kxx) (ncols Kxx))"

text \<open>
  The solver object; \<open>self_alpha\<close> and \<open>self_x\<close> are the attributes \<^verbatim>\<open>alpha_\<close> and
  \<^verbatim>\<open>x_\<close>, \<^verbatim>\<open>None\<close> until \<^verbatim>\<open>fit\<close> assigns them.
\<close>

record DirectKernelSolver =
  penalty :: real
  self_alpha :: "fl list option"
  self_x :: "pointset option"
  kernel :: kernel

definition DirectKernelSolver_init :: "kernel \<Rightarrow> real \<Rightarrow> DirectKernelSolver" where
  "DirectKernelSolver_init k p = \<lparr>penalty = p, self_alpha = None, self_x = None, kernel = k\<rparr>"

text \<open>
  \<^verbatim>\<open>fit\<close> assigns \<^verbatim>\<open>self.x_\<close> before it inverts, so a failed inversion leaves \<^verbatim>\<open>x_\<close>
  set and \<^verbatim>\<open>alpha_\<close> as it was. \<^verbatim>\<open>torch.inverse\<close> is library code: the parameter \<open>torch_inverse\<close>
  stands for it, returning a matrix or raising.
\<close>

definition fit ::
    "(fl list list \<Rightarrow> py_error + fl list list) \<Rightarrow> DirectKernelSolver \<Rightarrow> pointset \<Rightarrow> real list
      \<Rightarrow> py_error option \<times> DirectKernelSolver" where
  "fit torch_inverse self x y =
     (let Kxx = direct_kernel (kernel self) x x;
          self1 = self\<lparr>self_x := Some x\<rparr>
      in case torch_inverse (add_penalty Kxx (penalty self)) of
           Inl e \<Rightarrow> (Some e, self1)
         | Inr Minv \<Rightarrow>
             (case matvec Minv (map Fin y) of
                Inl e \<Rightarrow> (Some e, self1)
              | Inr a \<Rightarrow> (None, self1\<lparr>self_alpha := Some a\<rparr>)))"

text \<open>
  \<^verbatim>\<open>predict\<close> on a solver whose \<^verbatim>\<open>x_\<close> is still \<^verbatim>\<open>None\<close> hands \<^verbatim>\<open>None\<close> to the kernel
  function, whose \<^verbatim>\<open>xp.unsqueeze(0)\<close> raises an \<^verbatim>\<open>AttributeError\<close>.
\<close>

definition predict :: "DirectKernelSolver \<Rightarrow> pointset \<Rightarrow> py_error + fl list" where
  "predict self x =
     (case self_x self of
        None \<Rightarrow> Inl (AttributeError ''NoneType object has no attribute unsqueeze'')
      | Some xt \<Rightarrow>
          (let Kxxp = direct_kernel (kernel self) x xt
           in case self_alpha self of
                None \<Rightarrow> Inl (TypeError ''unsupported operand type(s) for @'')
              | Some a \<Rightarrow> matvec Kxxp a))"

section \<open>What the specification asks of a hyperparameter\<close>

text \<open>
  The specification's invariant: a hyperparameter reduces to a single scalar when it is a
  plain number or a tensor of one element.
\<close>

definition reduces_to_scalar :: "py_value \<Rightarrow> bool" where
  "reduces_to_scalar d =
     (case d of PyNumber r \<Rightarrow> True | PyTensor es \<Rightarrow> length es = 1 | PyNonNumeric \<Rightarrow> False)"

section \<open>What the specification asks of the dense inverse\<close>

text \<open>
  The contract of \<^verbatim>\<open>torch.inverse\<close> the solver relies on: \<open>M\<close> and \<open>Minv\<close> are
  \<open>n \<times> n\<close> matrices of finite entries and \<open>M\<close> times \<open>Minv\<close> is the identity.
\<close>

definition is_fin :: "fl \<Rightarrow> bool" where
  "is_fin v = (case v of Fin a \<Rightarrow> True | _ \<Rightarrow> False)"

definition fin_val :: "fl \<Rightarrow> real" where
  "fin_val v = (case v of Fin a \<Rightarrow> a | _ \<Rightarrow> 0)"

definition square_fin :: "nat \<Rightarrow> fl list list \<Rightarrow> bool" where
  "square_fin n M = (length M = n \<and> list_all (\<lambda>r. length r = n \<and> list_all is_fin r) M)"

definition is_inverse_of :: "nat \<Rightarrow> fl list list \<Rightarrow> fl list list \<Rightarrow> bool" where
  "is_inverse_of n M Minv =
     (square_fin n M \<and> square_fin n Minv
      \<and> mm (map (map fin_val) M) (map (map fin_val) Minv) n = torch_eye n n)"

section \<open>The decayed spherical-Laplace kernel\<close>





section \<open>Evaluation on concrete points\<close>

lemma torch_norm_unit3 [simp]:
  "torch_norm [1, 0, 0] = 1" "torch_norm [0, 1, 0] = 1"
  by (simp_all add: torch_norm_def)

lemma torch_norm_unit2 [simp]: "torch_norm [1, 0] = 1"
  by (simp add: torch_norm_def)

text \<open>
  C8. For \<open>X1 = [[1,0,0]]\<close> and \<open>X2 = [[0,1,0]]\<close> the arc-cosine kernel's
  \<^verbatim>\<open>direct_kernel\<close> is the \<open>1 \<times> 1\<close> matrix holding \<open>1 / \<pi>\<close>, and that of
  \<^verbatim>\<open>LaplaceKernelSphere\<close> with \<open>alpha = -1\<close>, \<open>gamma = 0.5\<close> is the \<open>1 \<times> 1\<close> matrix holding
  \<open>exp (-1)\<close>.
\<close>

theorem hand_computed_scenario:
  "direct_kernel ArcCosineKernel [[1, 0, 0]] [[0, 1, 0]] = [[Fin (1 / pi)]]
   \<and> direct_kernel (LaplaceKernelSphere (- 1) (1 / 2)) [[1, 0, 0]] [[0, 1, 0]] = [[Fin (exp (- 1))]]"
  by (simp add: k_arccos_def k_arccos_entry_def k_arccos_tail_def k_spherical_laplace_def laplace_exp_def laplace_exp_tail_def
      cos_alpha_x_def clamp_cos_def row_dot_def fsub_def)

text \<open>
  C1. \<^verbatim>\<open>NeuralTangentKernel.direct_kernel\<close> does not return the matrix of
  \<open>(\<parallel>x\<parallel>\<parallel>y\<parallel> / \<pi>) (sin \<theta> + (1 + variance) (\<pi> - \<theta>) cos \<theta>)\<close>: with \<open>variance = 1\<close> and
  \<open>X1 = X2 = [[1, 0]]\<close> the angle is \<open>0\<close> and the formula, which is what \<^verbatim>\<open>k_ntk\<close>
  computes, gives \<open>2\<close>, while the method returns \<open>1\<close>, the arc-cosine value.
\<close>

theorem ntk_direct_kernel_ignores_variance:
  "direct_kernel (NeuralTangentKernel (PyNumber 1)) [[1, 0]] [[1, 0]] = [[Fin 1]]
   \<and> k_ntk [[1, 0]] [[1, 0]] 1 = [[Fin 2]]
   \<and> (1 * 1 / pi) * (sin (arccos 1) + (1 + 1) * (pi - arccos 1) * cos (arccos 1)) = (2::real)"
  by (simp add: k_arccos_def k_arccos_entry_def k_arccos_tail_def k_ntk_def k_ntk_entry_def k_ntk_tail_def
      cos_alpha_x_def clamp_cos_def row_dot_def fsub_def)

section \<open>Construction\<close>

text \<open>
  C3, as the code has it. \<^verbatim>\<open>NeuralTangentKernel.__init__\<close> stores its \<open>variance\<close>
  unchecked: a two-element tensor, which \<^verbatim>\<open>extract_float\<close> rejects, is accepted at
  construction time.
\<close>

theorem ntk_init_accepts_non_scalar:
  "NeuralTangentKernel_init (PyTensor [1, 2]) = Inr (NeuralTangentKernel (PyTensor [1, 2]))
   \<and> \<not> reduces_to_scalar (PyTensor [1, 2])
   \<and> extract_float (PyTensor [1, 2]) = Inl (ValueError ''Item is not a scalar'')"
  by (simp add: NeuralTangentKernel_init_def extract_float_def reduces_to_scalar_def)

lemma extract_float_rejects:
  "\<not> reduces_to_scalar d \<Longrightarrow> \<exists>e. extract_float d = Inl e"
  by (cases d) (auto simp add: extract_float_def reduces_to_scalar_def split: list.splits)

lemma extract_float_accepts:
  "reduces_to_scalar d \<Longrightarrow> \<exists>r. extract_float d = Inr r"
  by (cases d) (auto simp add: extract_float_def reduces_to_scalar_def split: list.splits)

text \<open>
  C3, amended. Constructing a \<^verbatim>\<open>LaplaceKernelSphere\<close> with an \<open>alpha\<close> or a \<open>gamma\<close> that
  does not reduce to a single scalar raises at construction time, and with two scalars it
  succeeds.
\<close>

theorem laplace_init_rejects_non_scalar:
  "(\<not> reduces_to_scalar alpha \<or> \<not> reduces_to_scalar gamma
      \<longrightarrow> (\<exists>e. LaplaceKernelSphere_init alpha gamma = Inl e))
   \<and> (reduces_to_scalar alpha \<and> reduces_to_scalar gamma
      \<longrightarrow> (\<exists>k. LaplaceKernelSphere_init alpha gamma = Inr k))"
proof -
  have "\<exists>e. LaplaceKernelSphere_init alpha gamma = Inl e" if "\<not> reduces_to_scalar alpha"
    using extract_float_rejects [OF that] by (auto simp add: LaplaceKernelSphere_init_def)
  moreover have "\<exists>e. LaplaceKernelSphere_init alpha gamma = Inl e" if "\<not> reduces_to_scalar gamma"
    using extract_float_rejects [OF that]
    by (auto simp add: LaplaceKernelSphere_init_def split: sum.splits)
  moreover have "\<exists>k. LaplaceKernelSphere_init alpha gamma = Inr k"
    if "reduces_to_scalar alpha" "reduces_to_scalar gamma"
    using extract_float_accepts [OF that(1)] extract_float_accepts [OF that(2)]
    by (auto simp add: LaplaceKernelSphere_init_def)
  ultimately show ?thesis by blast
qed

theorem laplace_init_rejects_non_scalar_witness:
  "\<not> reduces_to_scalar (PyTensor [1, 2])
   \<and> LaplaceKernelSphere_init (PyTensor [1, 2]) (PyNumber (1 / 2)) = Inl (ValueError ''Item is not a scalar'')
   \<and> reduces_to_scalar (PyNumber (- 1)) \<and> reduces_to_scalar (PyTensor [1 / 2])
   \<and> LaplaceKernelSphere_init (PyNumber (- 1)) (PyTensor [1 / 2]) = Inr (LaplaceKernelSphere (- 1) (1 / 2))"
  using laplace_init_rejects_non_scalar [of "PyTensor [1, 2]" "PyNumber (1 / 2)"]
        laplace_init_rejects_non_scalar [of "PyNumber (- 1)" "PyTensor [1 / 2]"]
  by (simp add: reduces_to_scalar_def LaplaceKernelSphere_init_def extract_float_def)

section \<open>The unfitted solver\<close>

text \<open>
  C6. On a solver on which \<^verbatim>\<open>fit\<close> was never called, \<^verbatim>\<open>predict\<close> raises for every
  kernel, penalty and query set: it returns no value.
\<close>

theorem predict_before_fit_raises:
  "predict (DirectKernelSolver_init k p) xq
     = Inl (AttributeError ''NoneType object has no attribute unsqueeze'')"
  by (simp add: predict_def DirectKernelSolver_init_def)

section \<open>The raw block\<close>

lemma addmm_row:
  "map2 (\<lambda>ov j. ov + f j) orow [0..<length orow] = map2 (+) orow (map f [0..<length orow])"
  by (rule nth_equalityI) simp_all

lemma addmm_row_zero:
  "map2 (\<lambda>ov j. ov + f j) orow [0..<length orow] = map f [0..<length orow]
   \<longleftrightarrow> orow = replicate (length orow) (0::real)"
proof
  assume h: "map2 (\<lambda>ov j. ov + f j) orow [0..<length orow] = map f [0..<length orow]"
  show "orow = replicate (length orow) 0"
  proof (rule nth_equalityI)
    fix i assume i: "i < length orow"
    from h have "map2 (\<lambda>ov j. ov + f j) orow [0..<length orow] ! i = map f [0..<length orow] ! i"
      by simp
    with i show "orow ! i = replicate (length orow) 0 ! i" by simp
  qed simp
next
  assume h: "orow = replicate (length orow) 0"
  show "map2 (\<lambda>ov j. ov + f j) orow [0..<length orow] = map f [0..<length orow]"
  proof (rule nth_equalityI)
    fix i assume "i < length (map2 (\<lambda>ov j. ov + f j) orow [0..<length orow])"
    then have i: "i < length orow" by simp
    then have "orow ! i = 0" using h by (metis nth_replicate)
    with i show "map2 (\<lambda>ov j. ov + f j) orow [0..<length orow] ! i = map f [0..<length orow] ! i"
      by simp
  qed simp
qed

lemma addmm_eq:
  assumes "length X1 = length out" "list_all (\<lambda>r. length r = m) out"
  shows "addmm out X1 X2 = map2 (map2 (+)) out (mm X1 X2 m)"
  using assms
proof (induction X1 out rule: list_induct2)
  case Nil
  then show ?case by (simp add: addmm_def mm_def)
next
  case (Cons x xs orow os)
  then have "addmm os xs X2 = map2 (map2 (+)) os (mm xs X2 m)" by simp
  moreover have "length orow = m" using Cons.prems by simp
  ultimately show ?case
    using addmm_row [of "\<lambda>j. row_dot x (col j X2)" orow]
    by (simp add: addmm_def mm_def)
qed

lemma addmm_zero_iff:
  assumes "length X1 = length out" "list_all (\<lambda>r. length r = m) out"
  shows "addmm out X1 X2 = mm X1 X2 m \<longleftrightarrow> out = zeros (length X1) m"
  using assms
proof (induction X1 out rule: list_induct2)
  case Nil
  then show ?case by (simp add: addmm_def mm_def zeros_def)
next
  case (Cons x xs orow os)
  then have ih: "addmm os xs X2 = mm xs X2 m \<longleftrightarrow> os = zeros (length xs) m" by simp
  have m: "length orow = m" using Cons.prems by simp
  have "addmm (orow # os) (x # xs) X2 = mm (x # xs) X2 m \<longleftrightarrow>
        map2 (\<lambda>ov j. ov + row_dot x (col j X2)) orow [0..<length orow]
          = map (\<lambda>j. row_dot x (col j X2)) [0..<length orow] \<and> addmm os xs X2 = mm xs X2 m"
    using m by (simp add: addmm_def mm_def)
  also have "\<dots> \<longleftrightarrow> orow = replicate m 0 \<and> os = zeros (length xs) m"
    using addmm_row_zero [of "\<lambda>j. row_dot x (col j X2)" orow] ih m by simp
  also have "\<dots> \<longleftrightarrow> orow # os = zeros (length (x # xs)) m"
    by (simp add: zeros_def)
  finally show ?case .
qed

lemma col_tensor_T:
  assumes "j < length X" "length (X ! j) = d"
  shows "col j (tensor_T d X) = X ! j"
proof (rule nth_equalityI)
  show "length (col j (tensor_T d X)) = length (X ! j)"
    using assms by (simp add: col_def tensor_T_def)
  fix k assume "k < length (col j (tensor_T d X))"
  then have "k < d" by (simp add: col_def tensor_T_def)
  then show "col j (tensor_T d X) ! k = X ! j ! k"
    using assms by (simp add: col_def tensor_T_def)
qed

lemma mm_tensor_T:
  assumes "pointset d X2"
  shows "mm X1 (tensor_T d X2) (length X2) = map (\<lambda>x. map (\<lambda>y. row_dot x y) X2) X1"
proof -
  have "map (\<lambda>j. row_dot x (col j (tensor_T d X2))) [0..<length X2] = map (\<lambda>y. row_dot x y) X2" for x
  proof (rule nth_equalityI)
    fix j assume "j < length (map (\<lambda>j. row_dot x (col j (tensor_T d X2))) [0..<length X2])"
    then have j: "j < length X2" by simp
    then have "length (X2 ! j) = d" using assms by (simp add: pointset_def list_all_length)
    with j show "map (\<lambda>j. row_dot x (col j (tensor_T d X2))) [0..<length X2] ! j
                 = map (\<lambda>y. row_dot x y) X2 ! j"
      by (simp add: col_tensor_T)
  qed simp
  then show ?thesis by (simp add: mm_def)
qed

text \<open>
  C10. For point sets \<open>X1\<close>, \<open>X2\<close> of feature dimension \<open>d\<close> and a buffer \<open>out\<close> of shape
  \<open>(|X1|, |X2|)\<close>, \<^verbatim>\<open>_apply(X1, X2.T, out)\<close> of the arc-cosine and of the spherical-Laplace
  class leaves in \<open>out\<close> its former contents plus the block of dot products of the rows of
  \<open>X1\<close> with the rows of \<open>X2\<close>; \<open>out\<close> then holds that raw block exactly when it was zero
  before the call.
\<close>

theorem apply_adds_raw_block:
  assumes "pointset d X1" "pointset d X2"
    and "length X1 = length out" "list_all (\<lambda>r. length r = length X2) out"
  shows "ArcCosineKernel_apply X1 (tensor_T d X2) out
           = map2 (map2 (+)) out (map (\<lambda>x. map (\<lambda>y. row_dot x y) X2) X1)
       \<and> LaplaceKernelSphere_apply X1 (tensor_T d X2) out
           = map2 (map2 (+)) out (map (\<lambda>x. map (\<lambda>y. row_dot x y) X2) X1)
       \<and> (ArcCosineKernel_apply X1 (tensor_T d X2) out = map (\<lambda>x. map (\<lambda>y. row_dot x y) X2) X1
            \<longleftrightarrow> out = zeros (length X1) (length X2))
       \<and> (LaplaceKernelSphere_apply X1 (tensor_T d X2) out = map (\<lambda>x. map (\<lambda>y. row_dot x y) X2) X1
            \<longleftrightarrow> out = zeros (length X1) (length X2))"
  using addmm_eq [OF assms(3,4), of "tensor_T d X2"] addmm_zero_iff [OF assms(3,4), of "tensor_T d X2"]
  by (simp add: ArcCosineKernel_apply_def LaplaceKernelSphere_apply_def mm_tensor_T [OF assms(2)])

theorem apply_adds_raw_block_witness:
  "pointset 2 [[1, 2]] \<and> pointset 2 [[3, 4]]
   \<and> ArcCosineKernel_apply [[1, 2]] (tensor_T 2 [[3, 4]]) [[5]] = [[16]]
   \<and> LaplaceKernelSphere_apply [[1, 2]] (tensor_T 2 [[3, 4]]) [[5]] = [[16]]
   \<and> ArcCosineKernel_apply [[1, 2]] (tensor_T 2 [[3, 4]]) [[0]] = [[11]]
   \<and> LaplaceKernelSphere_apply [[1, 2]] (tensor_T 2 [[3, 4]]) [[0]] = [[11]]"
proof -
  have h: "pointset 2 [[1, 2]]" "pointset 2 [[3, 4]]"
    by (simp_all add: pointset_def)
  have l: "length [[1, 2 :: real]] = length [[5 :: real]]"
    "list_all (\<lambda>r. length r = length [[3, 4 :: real]]) [[5 :: real]]"
    "length [[1, 2 :: real]] = length [[0 :: real]]"
    "list_all (\<lambda>r. length r = length [[3, 4 :: real]]) [[0 :: real]]"
    by simp_all
  from apply_adds_raw_block [OF h l(1,2)] apply_adds_raw_block [OF h l(3,4)] h
  show ?thesis by (simp add: row_dot_def zeros_def)
qed

section \<open>The staged path against the dense path\<close>

lemma sum_sq_nonneg: "0 \<le> sum_list (map (\<lambda>a. a * a) (x::real list))"
  by (induction x) simp_all

lemma torch_norm_nonneg: "0 \<le> torch_norm x"
  by (simp add: torch_norm_def sum_sq_nonneg)

lemma sum_sq_zero: "sum_list (map (\<lambda>a. a * a) (x::real list)) = 0 \<Longrightarrow> \<forall>a \<in> set x. a = 0"
proof (induction x)
  case Nil
  then show ?case by simp
next
  case (Cons a x)
  have "0 \<le> a * a" by simp
  moreover have "0 \<le> sum_list (map (\<lambda>a. a * a) x)" by (rule sum_sq_nonneg)
  ultimately have "a * a = 0" "sum_list (map (\<lambda>a. a * a) x) = 0"
    using Cons.prems by (simp_all add: add_nonneg_eq_0_iff)
  with Cons.IH show ?case by simp
qed

lemma row_dot_zero_left: "\<forall>a \<in> set x. a = 0 \<Longrightarrow> row_dot x y = 0"
  unfolding row_dot_def
proof (induction x arbitrary: y)
  case Nil
  then show ?case by simp
next
  case (Cons a x)
  then show ?case by (cases y) simp_all
qed

lemma row_dot_commute: "row_dot x y = row_dot y x"
  unfolding row_dot_def
proof (induction x arbitrary: y)
  case Nil
  then show ?case by simp
next
  case (Cons a x)
  then show ?case by (cases y) (simp_all add: mult.commute)
qed

lemma torch_norm_zero_dot:
  "torch_norm x = 0 \<Longrightarrow> row_dot x y = 0" "torch_norm x = 0 \<Longrightarrow> row_dot y x = 0"
proof -
  assume "torch_norm x = 0"
  then have "\<forall>a \<in> set x. a = 0"
    using sum_sq_zero [of x] by (simp add: torch_norm_def)
  then show "row_dot x y = 0" by (rule row_dot_zero_left)
  then show "row_dot y x = 0" by (simp add: row_dot_commute)
qed


lemma fmul_commute: "fmul a b = fmul b a"
  by (cases a; cases b) (simp_all add: mult.commute)

lemma fmul_fin_fin: "fmul (fmul E (Fin a)) (Fin b) = fmul (Fin (a * b)) E"
  by (cases E) (auto simp add: signed_inf_def mult_less_0_iff zero_less_mult_iff algebra_simps)

lemma laplace_finalize_entry_eq:
  "LaplaceKernelSphere_finalize_entry alpha gamma (Fin (row_dot x y)) (torch_norm x) (torch_norm y)
     = fmul (Fin (torch_norm x * torch_norm y)) (laplace_exp x y gamma alpha)"
proof -
  have c: "fclamp (fdiv (fdiv (Fin (row_dot x y)) (Fin (torch_norm x))) (Fin (torch_norm y))) (- 1) 1
           = cos_alpha_x x y"
  proof (cases "torch_norm x = 0 \<or> torch_norm y = 0")
    case True
    then have "row_dot x y = 0" using torch_norm_zero_dot by blast
    with True show ?thesis by (auto simp add: cos_alpha_x_def clamp_cos_def signed_inf_def)
  next
    case False
    then show ?thesis by (simp add: cos_alpha_x_def clamp_cos_def)
  qed
  have b: "fadd (fmul c (Fin (- 1))) (Fin 1) = fsub (Fin 1) c" for c
    by (cases c) (simp_all add: fsub_def signed_inf_def)
  have m: "fmul P (Fin alpha) = fmul (Fin alpha) P" for P
    by (rule fmul_commute)
  show ?thesis
    unfolding LaplaceKernelSphere_finalize_entry_def laplace_exp_def laplace_exp_tail_def
      cos_alpha_x_def [symmetric] Let_def c b m
    by (rule fmul_fin_fin)
qed

lemma raw_block_of_zeros:
  assumes "pointset d X2"
  shows "addmm (zeros (length X1) (length X2)) X1 (tensor_T d X2)
         = map (\<lambda>x. map (\<lambda>y. row_dot x y) X2) X1"
proof -
  have "addmm (zeros (length X1) (length X2)) X1 (tensor_T d X2)
        = mm X1 (tensor_T d X2) (length X2)"
    using addmm_zero_iff [of X1 "zeros (length X1) (length X2)" "length X2" "tensor_T d X2"]
    by (simp add: zeros_def list_all_length)
  then show ?thesis by (simp add: mm_tensor_T [OF assms])
qed

lemma map2_same: "map2 f (map g xs) (map h xs) = map (\<lambda>x. f (g x) (h x)) xs"
  by (induction xs) simp_all


lemma LaplaceKernelSphere_staged_eq_direct:
  assumes "pointset d X2" "length X2 \<noteq> 1"
  shows "LaplaceKernelSphere_staged alpha gamma d X1 X2
         = direct_kernel (LaplaceKernelSphere alpha gamma) X1 X2"
  unfolding LaplaceKernelSphere_staged_def LaplaceKernelSphere_apply_def LaplaceKernelSphere_prepare_def
    LaplaceKernelSphere_finalize_def Let_def raw_block_of_zeros [OF assms(1)]
  using assms(2)
  by (simp add: map2_same laplace_finalize_entry_eq k_spherical_laplace_def)


text \<open>
  C2. For the neural-tangent class the staged path and \<^verbatim>\<open>direct_kernel\<close> disagree: with
  \<open>variance = 1\<close> and \<open>X1 = X2 = [[1, 0]]\<close> the device kernel launched by \<^verbatim>\<open>_apply\<close> stores
  \<open>2\<close>, and \<^verbatim>\<open>direct_kernel\<close> returns \<open>1\<close>.
\<close>

theorem ntk_staged_differs_from_direct:
  "NeuralTangentKernel_staged (PyNumber 1) 2 [[1, 0]] [[1, 0]] = Inr [[2]]
   \<and> direct_kernel (NeuralTangentKernel (PyNumber 1)) [[1, 0]] [[1, 0]] = [[Fin 1]]"
  by (simp add: NeuralTangentKernel_staged_def NeuralTangentKernel_apply_def NeuralTangentKernel_apply_env_def launch_blocks_def launch_valid_def max_threads_per_block_def
      NeuralTangentKernel_finalize_def NeuralTangentKernel_prepare_def py_float_def tensor_T_def
      col_def ncols_def zeros_def stable_kernel_def atan2_def k_arccos_def k_arccos_entry_def k_arccos_tail_def
      cos_alpha_x_def clamp_cos_def row_dot_def fsub_def numeral_2_eq_2)

section \<open>Fit and predict\<close>

lemma fl_dot_fin_acc:
  "foldl fadd (Fin acc) (map2 fmul (map Fin r) (map Fin v)) = Fin (acc + sum_list (map2 (*) r v))"
proof (induction r arbitrary: v acc)
  case Nil
  then show ?case by simp
next
  case (Cons a r)
  then show ?case by (cases v) (simp_all add: algebra_simps)
qed

lemma fl_dot_fin: "fl_dot (map Fin r) (map Fin v) = Fin (row_dot r v)"
  using fl_dot_fin_acc [of 0 r v] by (simp add: fl_dot_def row_dot_def)

lemma fin_row: "list_all is_fin r \<Longrightarrow> map (Fin \<circ> fin_val) r = r"
  by (induction r) (auto simp add: is_fin_def fin_val_def split: fl.splits)

lemma fin_mat:
  "list_all (\<lambda>r. length r = n \<and> list_all is_fin r) M \<Longrightarrow> map (map Fin) (map (map fin_val) M) = M"
  by (induction M) (simp_all add: fin_row)

lemma row_dot_sum:
  assumes "length a = n" "length b = n"
  shows "row_dot a b = (\<Sum>i<n. a ! i * b ! i)"
proof -
  have "row_dot a b = (\<Sum>i = 0..<length (map2 (*) a b). map2 (*) a b ! i)"
    unfolding row_dot_def by (rule sum_list_sum_nth)
  also have "\<dots> = (\<Sum>i<n. a ! i * b ! i)"
    using assms by (simp add: atLeast0LessThan)
  finally show ?thesis .
qed

lemma matvec_assoc_row:
  assumes "length r = n" "length B = n" "list_all (\<lambda>b. length b = n) B" "length y = n"
  shows "row_dot r (map (\<lambda>b. row_dot b y) B)
         = row_dot (map (\<lambda>j. row_dot r (col j B)) [0..<n]) y"
proof -
  have len: "length (B ! k) = n" if "k < n" for k
    using assms that by (simp add: list_all_length)
  have "row_dot r (map (\<lambda>b. row_dot b y) B) = (\<Sum>k<n. r ! k * (\<Sum>j<n. B ! k ! j * y ! j))"
    using assms len by (simp add: row_dot_sum [of _ n] )
  also have "\<dots> = (\<Sum>k<n. \<Sum>j<n. r ! k * B ! k ! j * y ! j)"
    by (simp add: sum_distrib_left mult.assoc)
  also have "\<dots> = (\<Sum>j<n. \<Sum>k<n. r ! k * B ! k ! j * y ! j)"
    by (rule sum.swap)
  also have "\<dots> = (\<Sum>j<n. (\<Sum>k<n. r ! k * col j B ! k) * y ! j)"
    using assms by (simp add: sum_distrib_right col_def)
  also have "\<dots> = row_dot (map (\<lambda>j. row_dot r (col j B)) [0..<n]) y"
    using assms by (simp add: row_dot_sum [of _ n] col_def)
  finally show ?thesis .
qed

lemma row_dot_unit:
  assumes "length y = n" "i < n"
  shows "row_dot (map (\<lambda>j. if i = j then 1 else 0) [0..<n]) y = y ! i"
proof -
  have "row_dot (map (\<lambda>j. if i = j then 1 else 0) [0..<n]) y
        = (\<Sum>j<n. (if i = j then 1 else 0) * y ! j)"
    using assms by (simp add: row_dot_sum [of _ n])
  also have "\<dots> = (\<Sum>j<n. if j = i then y ! j else 0)"
    by (rule sum.cong) auto
  also have "\<dots> = y ! i"
    using assms by simp
  finally show ?thesis .
qed

lemma right_inverse_solves:
  assumes A: "length A = n" "list_all (\<lambda>r. length r = n) A"
    and B: "length B = n" "list_all (\<lambda>r. length r = n) B"
    and y: "length y = n"
    and inv: "mm A B n = torch_eye n n"
  shows "map (\<lambda>r. row_dot r (map (\<lambda>b. row_dot b y) B)) A = y"
proof (rule nth_equalityI)
  show "length (map (\<lambda>r. row_dot r (map (\<lambda>b. row_dot b y) B)) A) = length y"
    using A y by simp
  fix i assume "i < length (map (\<lambda>r. row_dot r (map (\<lambda>b. row_dot b y) B)) A)"
  then have i: "i < n" using A by simp
  then have r: "length (A ! i) = n" using A by (simp add: list_all_length)
  have "mm A B n ! i = torch_eye n n ! i" using inv by simp
  then have e: "map (\<lambda>j. row_dot (A ! i) (col j B)) [0..<n] = map (\<lambda>j. if i = j then 1 else 0) [0..<n]"
    using i A by (simp add: mm_def torch_eye_def)
  have "map (\<lambda>r. row_dot r (map (\<lambda>b. row_dot b y) B)) A ! i
        = row_dot (A ! i) (map (\<lambda>b. row_dot b y) B)"
    using i A by simp
  also have "\<dots> = row_dot (map (\<lambda>j. row_dot (A ! i) (col j B)) [0..<n]) y"
    by (rule matvec_assoc_row [OF r B y])
  also have "\<dots> = y ! i"
    unfolding e by (rule row_dot_unit [OF y i])
  finally show "map (\<lambda>r. row_dot r (map (\<lambda>b. row_dot b y) B)) A ! i = y ! i" .
qed

lemma matvec_fin:
  assumes "list_all (\<lambda>r. length r = length v) A"
  shows "matvec (map (map Fin) A) (map Fin v) = Inr (map Fin (map (\<lambda>r. row_dot r v) A))"
  using assms by (simp add: matvec_def list_all_iff fl_dot_fin)

lemma square_fin_reals:
  assumes "square_fin n M"
  shows "map (map Fin) (map (map fin_val) M) = M" "length (map (map fin_val) M) = n"
    "list_all (\<lambda>r. length r = n) (map (map fin_val) M)"
  using assms fin_mat [of n M] by (simp_all add: square_fin_def list_all_iff)

text \<open>
  C5, amended. When \<^verbatim>\<open>torch.inverse\<close> returns an inverse of \<open>K + penalty \<cdot> I\<close>, for
  \<open>K = direct_kernel(X, X)\<close>, and \<open>y\<close> has one label per point, \<^verbatim>\<open>fit\<close> stores \<open>X\<close> and a
  vector \<open>alpha_\<close> with \<open>(K + penalty \<cdot> I) alpha_ = y\<close>, and a later \<^verbatim>\<open>predict(Xq)\<close> is
  \<open>direct_kernel(Xq, X) @ alpha_\<close>.
\<close>

theorem fit_then_predict:
  assumes inv: "torch_inverse (add_penalty (direct_kernel (kernel self) X X) (penalty self)) = Inr Minv"
    and right_inv: "is_inverse_of (length X)
                      (add_penalty (direct_kernel (kernel self) X X) (penalty self)) Minv"
    and y: "length y = length X"
  shows "\<exists>a. fit torch_inverse self X y = (None, self\<lparr>self_x := Some X, self_alpha := Some a\<rparr>)
            \<and> matvec (add_penalty (direct_kernel (kernel self) X X) (penalty self)) a
                = Inr (map Fin y)
            \<and> predict (self\<lparr>self_x := Some X, self_alpha := Some a\<rparr>) Xq
                = matvec (direct_kernel (kernel self) Xq X) a"
proof -
  define n where "n = length X"
  define M where "M = add_penalty (direct_kernel (kernel self) X X) (penalty self)"
  define A where "A = map (map fin_val) M"
  define B where "B = map (map fin_val) Minv"
  define a where "a = map Fin (map (\<lambda>b. row_dot b y) B)"
  have sq: "square_fin n M" "square_fin n Minv" and eye: "mm A B n = torch_eye n n"
    using right_inv by (simp_all add: is_inverse_of_def n_def M_def A_def B_def)
  have A: "map (map Fin) A = M" "length A = n" "list_all (\<lambda>r. length r = n) A"
    using square_fin_reals [OF sq(1)] by (simp_all add: A_def)
  have B: "map (map Fin) B = Minv" "length B = n" "list_all (\<lambda>r. length r = n) B"
    using square_fin_reals [OF sq(2)] by (simp_all add: B_def)
  have yn: "length y = n" using y by (simp add: n_def)
  have "matvec (map (map Fin) B) (map Fin y) = Inr a"
    unfolding a_def using B(3) yn by (intro matvec_fin) simp
  then have alpha: "matvec Minv (map Fin y) = Inr a" by (simp add: B(1))
  have fit: "fit torch_inverse self X y = (None, self\<lparr>self_x := Some X, self_alpha := Some a\<rparr>)"
    using inv alpha by (simp add: fit_def M_def)
  have "matvec (map (map Fin) A) (map Fin (map (\<lambda>b. row_dot b y) B))
        = Inr (map Fin (map (\<lambda>r. row_dot r (map (\<lambda>b. row_dot b y) B)) A))"
    using A(3) B(2) by (intro matvec_fin) simp
  also have "map (\<lambda>r. row_dot r (map (\<lambda>b. row_dot b y) B)) A = y"
    by (rule right_inverse_solves [OF A(2) A(3) B(2) B(3) yn eye])
  finally have solves: "matvec M a = Inr (map Fin y)"
    by (simp add: A(1) a_def)
  have "predict (self\<lparr>self_x := Some X, self_alpha := Some a\<rparr>) Xq
        = matvec (direct_kernel (kernel self) Xq X) a"
    by (simp add: predict_def)
  with fit solves show ?thesis unfolding M_def by blast
qed

lemma torch_norm_neg_unit [simp]: "torch_norm [- 1, 0] = 1"
  by (simp add: torch_norm_def)

lemma K_example:
  "k_arccos [[1, 0], [- 1, 0]] [[1, 0], [- 1, 0]] = [[Fin 1, Fin 0], [Fin 0, Fin 1]]"
  by (simp add: k_arccos_def k_arccos_entry_def k_arccos_tail_def cos_alpha_x_def clamp_cos_def row_dot_def fsub_def)

theorem fit_then_predict_witness:
  "fit (\<lambda>M. Inr [[Fin (1 / 2), Fin 0], [Fin 0, Fin (1 / 2)]])
       (DirectKernelSolver_init ArcCosineKernel 1) [[1, 0], [- 1, 0]] [1, - 1]
     = (None, \<lparr>penalty = 1, self_alpha = Some [Fin (1 / 2), Fin (- 1 / 2)],
               self_x = Some [[1, 0], [- 1, 0]], kernel = ArcCosineKernel\<rparr>)
   \<and> is_inverse_of 2 [[Fin 2, Fin 0], [Fin 0, Fin 2]] [[Fin (1 / 2), Fin 0], [Fin 0, Fin (1 / 2)]]
   \<and> matvec [[Fin 2, Fin 0], [Fin 0, Fin 2]] [Fin (1 / 2), Fin (- 1 / 2)] = Inr [Fin 1, Fin (- 1)]
   \<and> predict \<lparr>penalty = 1, self_alpha = Some [Fin (1 / 2), Fin (- 1 / 2)],
               self_x = Some [[1, 0], [- 1, 0]], kernel = ArcCosineKernel\<rparr> [[1, 0]]
       = Inr [Fin (1 / 2)]"
proof -
  let ?ti = "\<lambda>M::fl list list. (Inr [[Fin (1 / 2), Fin 0], [Fin 0, Fin (1 / 2)]] :: py_error + fl list list)"
  let ?s = "DirectKernelSolver_init ArcCosineKernel 1"
  let ?X = "[[1, 0], [- 1, 0]] :: pointset"
  have M: "add_penalty (direct_kernel (kernel ?s) ?X ?X) (penalty ?s) = [[Fin 2, Fin 0], [Fin 0, Fin 2]]"
    by (simp add: DirectKernelSolver_init_def K_example add_penalty_def torch_eye_def ncols_def
        numeral_2_eq_2)
  have inv: "is_inverse_of 2 [[Fin 2, Fin 0], [Fin 0, Fin 2]] [[Fin (1 / 2), Fin 0], [Fin 0, Fin (1 / 2)]]"
    by (simp add: is_inverse_of_def square_fin_def is_fin_def fin_val_def mm_def torch_eye_def
        row_dot_def col_def numeral_2_eq_2)
  have h1: "?ti (add_penalty (direct_kernel (kernel ?s) ?X ?X) (penalty ?s))
            = Inr [[Fin (1 / 2), Fin 0], [Fin 0, Fin (1 / 2)]]" by simp
  have h2: "is_inverse_of (length ?X) (add_penalty (direct_kernel (kernel ?s) ?X ?X) (penalty ?s))
             [[Fin (1 / 2), Fin 0], [Fin 0, Fin (1 / 2)]]"
    using inv by (simp add: M numeral_2_eq_2)
  have h3: "length [1, - 1 :: real] = length ?X" by simp
  from fit_then_predict [OF h1 h2 h3, of "[[1, 0]]"] inv show ?thesis
    by (auto simp add: M DirectKernelSolver_init_def fit_def matvec_def fl_dot_def K_example
        predict_def k_arccos_def k_arccos_entry_def k_arccos_tail_def cos_alpha_x_def clamp_cos_def row_dot_def fsub_def)
qed

text \<open>
  C5, as the code has it. With \<open>penalty = 0\<close> and the point \<open>[1, 0]\<close> twice, the matrix
  \<open>K + penalty \<cdot> I\<close> has two equal rows: no vector \<open>alpha_\<close> maps to the labels \<open>[1, 0]\<close>,
  and when the inversion raises \<^verbatim>\<open>fit\<close> stores none.
\<close>

theorem singular_system_not_solved:
  "add_penalty (direct_kernel ArcCosineKernel [[1, 0], [1, 0]] [[1, 0], [1, 0]]) 0
     = [[Fin 1, Fin 1], [Fin 1, Fin 1]]
   \<and> \<not> (\<exists>a. matvec [[Fin 1, Fin 1], [Fin 1, Fin 1]] a = Inr (map Fin [1, 0]))
   \<and> fit (\<lambda>M. Inl (RuntimeError ''singular'')) (DirectKernelSolver_init ArcCosineKernel 0)
         [[1, 0], [1, 0]] [1, 0]
       = (Some (RuntimeError ''singular''),
          \<lparr>penalty = 0, self_alpha = None, self_x = Some [[1, 0], [1, 0]], kernel = ArcCosineKernel\<rparr>)"
  by (auto simp add: add_penalty_def torch_eye_def ncols_def numeral_2_eq_2 k_arccos_def
      k_arccos_entry_def k_arccos_tail_def cos_alpha_x_def clamp_cos_def row_dot_def fsub_def matvec_def fit_def
      DirectKernelSolver_init_def)

section \<open>The domain of the inverse cosine\<close>

text \<open>
  The dense functions and \<^verbatim>\<open>ArcCosineKernel._finalize\<close>: whatever the computed quotient
  is, larger than \<open>1\<close> or infinite, unless it is NaN the clamp turns it into a number of
  \<open>[-1, 1]\<close> and the inverse cosine returns an angle of \<open>[0, \<pi>]\<close>.
\<close>

lemma clamp_guards_acos:
  assumes "fdiv x_dot_xp norm_x_xp \<noteq> NaN"
  shows "\<exists>c. - 1 \<le> c \<and> c \<le> 1 \<and> clamp_cos x_dot_xp norm_x_xp = Fin c
            \<and> facos (clamp_cos x_dot_xp norm_x_xp) = Fin (arccos c)
            \<and> 0 \<le> arccos c \<and> arccos c \<le> pi"
proof -
  from assms have "\<exists>c. - 1 \<le> c \<and> c \<le> 1 \<and> clamp_cos x_dot_xp norm_x_xp = Fin c"
    by (cases "fdiv x_dot_xp norm_x_xp") (auto simp add: clamp_cos_def)
  then obtain c where c: "- 1 \<le> c" "c \<le> 1" "clamp_cos x_dot_xp norm_x_xp = Fin c" by blast
  then show ?thesis using arccos_bounded [of c] by (intro exI [of _ c]) simp
qed

lemma finalize_guards_acos:
  assumes "fdiv (fdiv A (Fin n1)) (Fin n2) \<noteq> NaN"
  shows "\<exists>c. - 1 \<le> c \<and> c \<le> 1 \<and> fclamp (fdiv (fdiv A (Fin n1)) (Fin n2)) (- 1) 1 = Fin c
            \<and> facos (fclamp (fdiv (fdiv A (Fin n1)) (Fin n2)) (- 1) 1) = Fin (arccos c)"
  using assms by (cases "fdiv (fdiv A (Fin n1)) (Fin n2)") auto

lemma dense_clamp_example:
  "k_arccos_tail (Fin 3) (Fin (3 - 1 / 2 ^ 51)) = Fin (3 - 1 / 2 ^ 51)
   \<and> ArcCosineKernel_finalize_entry (Fin (1 + 1 / 2 ^ 52)) 1 1 = Fin 1"
proof -
  have q: "min (max (3 / (3 - 1 / 2 ^ 51)) (- 1)) (1::real) = 1"
    by (simp add: field_simps)
  have "k_arccos_tail (Fin 3) (Fin (3 - 1 / 2 ^ 51)) = Fin (3 - 1 / 2 ^ 51)"
    by (simp add: k_arccos_tail_def clamp_cos_def fsub_def q)
  moreover have "ArcCosineKernel_finalize_entry (Fin (1 + 1 / 2 ^ 52)) 1 1 = Fin 1"
    by (simp add: ArcCosineKernel_finalize_entry_def)
  ultimately show ?thesis by blast
qed

text \<open>
  A vector of norm zero gives NaN on the dense path, from the division \<open>0 / 0\<close> and not
  from the inverse cosine.
\<close>

lemma zero_norm_gives_nan:
  "fdiv (Fin (row_dot [0, 0] [0, 0])) (Fin (torch_norm [0, 0] * torch_norm [0, 0])) = NaN
   \<and> cos_alpha_x [0, 0] [0, 0] = NaN \<and> k_arccos [[0, 0]] [[0, 0]] = [[NaN]]"
  by (simp add: k_arccos_def k_arccos_entry_def k_arccos_tail_def cos_alpha_x_def clamp_cos_def
      row_dot_def torch_norm_def signed_inf_def fsub_def)

text \<open>
  The arc-cosine formula of the symbolic path: a computed cosine outside \<open>[-1, 1]\<close> goes
  to \<^verbatim>\<open>Acos\<close> as it is, and the value is NaN whatever the norms are.
\<close>

lemma keops_acos_out_of_domain:
  assumes "1 < c \<or> c < - 1"
  shows "ArcCosineKernel_keops_tail norm_xy (Fin c) = NaN"
  using assms by (cases "fdiv norm_xy (Fin pi)") (auto simp add: ArcCosineKernel_keops_tail_def fsub_def)

lemma torch_norm_3_4 [simp]: "torch_norm [3, 4] = 5"
proof -
  have "sqrt (5\<^sup>2) = (5::real)" by (rule real_sqrt_abs [THEN trans]) simp
  then show ?thesis by (simp add: torch_norm_def)
qed

text \<open>
  C4. \<^verbatim>\<open>ArcCosineKernel._keops_mmv_impl\<close> takes \<^verbatim>\<open>Acos\<close> of the scalar product of the two
  normalised points without a clamp. For \<open>X = Y = [3, 4]\<close> the kernel value is \<open>25\<close>, on
  the dense path and, in exact arithmetic, on the symbolic path. In double precision the
  engine computes the norm product \<open>25\<close> and, from the normalised point
  \<open>[3 \<cdot> 0.2, 4 \<cdot> 0.2]\<close>, the cosine \<open>1 + 1 / 2 ^ 52\<close>: on these computed values the formula
  of the arc-cosine class gives NaN, out of the domain of the inverse cosine, where the
  formula of \<^verbatim>\<open>LaplaceKernelSphere\<close>, which has \<^verbatim>\<open>Clamp11\<close>, gives a finite value.
\<close>

theorem keops_arccos_acos_unclamped:
  "k_arccos_entry [3, 4] [3, 4] = Fin 25
   \<and> ArcCosineKernel_keops_formula [3, 4] [3, 4] = Fin 25
   \<and> ArcCosineKernel_keops_tail (Fin 25) (Fin (1 + 1 / 2 ^ 52)) = NaN
   \<and> LaplaceKernelSphere_keops_tail (- 1) (1 / 2) (Fin 25) (Fin (1 + 1 / 2 ^ 52)) = Fin 25"
proof -
  have "k_arccos_entry [3, 4] [3, 4] = Fin 25"
    by (simp add: k_arccos_entry_def k_arccos_tail_def clamp_cos_def row_dot_def fsub_def)
  moreover have "ArcCosineKernel_keops_formula [3, 4] [3, 4] = Fin 25"
  proof -
    have s: "sqrt 25 = 5"
      using torch_norm_3_4 by (simp add: torch_norm_def)
    have "row_dot (keops_Normalize [3, 4]) (keops_Normalize [3, 4]) = 1"
      by (simp add: keops_Normalize_def keops_Rsqrt_def row_dot_def s)
    then show ?thesis
      by (simp add: ArcCosineKernel_keops_formula_def ArcCosineKernel_keops_tail_def fsub_def)
  qed
  moreover have "ArcCosineKernel_keops_tail (Fin 25) (Fin (1 + 1 / 2 ^ 52)) = NaN"
    by (rule keops_acos_out_of_domain) simp
  moreover have "LaplaceKernelSphere_keops_tail (- 1) (1 / 2) (Fin 25) (Fin (1 + 1 / 2 ^ 52)) = Fin 25"
    by (simp add: LaplaceKernelSphere_keops_tail_def fsub_def)
  ultimately show ?thesis by blast
qed

section \<open>The device kernel, the symbolic path and the variance degeneracy\<close>

lemma norm_loop_sums:
  assumes "length x = length y"
  shows "norm_loop x y (ax, ay)
         = (ax + sum_list (map (\<lambda>a. a * a) x), ay + sum_list (map (\<lambda>a. a * a) y))"
  using assms by (induction x y arbitrary: ax ay rule: list_induct2) simp_all

lemma arg_loop_sums:
  assumes "length x = length y"
  shows "arg_loop a b x y (s1, s2)
         = (s1 + (b * b * sum_list (map (\<lambda>a. a * a) x) - 2 * (a * b) * row_dot x y
                  + a * a * sum_list (map (\<lambda>a. a * a) y)),
            s2 + (b * b * sum_list (map (\<lambda>a. a * a) x) + 2 * (a * b) * row_dot x y
                  + a * a * sum_list (map (\<lambda>a. a * a) y)))"
  using assms
proof (induction x y arbitrary: s1 s2 rule: list_induct2)
  case Nil
  then show ?case by (simp add: row_dot_def)
next
  case (Cons u x v y)
  show ?case
    by (simp add: Cons.IH row_dot_def Let_def algebra_simps)
qed

lemma combination_sums:
  assumes "length x = length y"
  shows "sum_list (map (\<lambda>c. c * c) (map2 (\<lambda>u w. b * u - a * w) x y))
           = b * b * sum_list (map (\<lambda>a. a * a) x) - 2 * (a * b) * row_dot x y
             + a * a * sum_list (map (\<lambda>a. a * a) y)"
    and "sum_list (map (\<lambda>c. c * c) (map2 (\<lambda>u w. b * u + a * w) x y))
           = b * b * sum_list (map (\<lambda>a. a * a) x) + 2 * (a * b) * row_dot x y
             + a * a * sum_list (map (\<lambda>a. a * a) y)"
  using assms
  by (induction x y rule: list_induct2) (simp_all add: row_dot_def algebra_simps)

lemma torch_norm_sq: "torch_norm x * torch_norm x = sum_list (map (\<lambda>a. a * a) x)"
  by (simp add: torch_norm_def sum_sq_nonneg)

lemma atan2_half_angle:
  assumes "0 \<le> t" "t \<le> pi / 2" "0 < r"
  shows "atan2 (r * sin t) (r * cos t) = t"
proof (cases "t = pi / 2")
  case True
  have "atan2 (r * sin (pi / 2)) (r * cos (pi / 2)) = pi / 2"
    using assms(3) by (simp add: atan2_def)
  then show ?thesis unfolding True .
next
  case False
  with assms have t: "- (pi / 2) < t" "t < pi / 2" by simp_all
  then have "0 < cos t" by (rule cos_gt_zero_pi)
  then have "atan2 (r * sin t) (r * cos t) = arctan (tan t)"
    using assms(3) by (simp add: atan2_def tan_def)
  also have "\<dots> = t" using t by (rule arctan_tan)
  finally show ?thesis .
qed

text \<open>
  For two points of equal length and nonzero norm, with \<open>c\<close> the exact cosine of their
  angle: \<open>c\<close> lies in \<open>[-1, 1]\<close>, and twice the \<open>atan2\<close> of the norms of
  \<open>\<parallel>y\<parallel>x - \<parallel>x\<parallel>y\<close> and \<open>\<parallel>y\<parallel>x + \<parallel>x\<parallel>y\<close> is the inverse cosine of \<open>c\<close>.
\<close>

lemma angle_identity:
  assumes len: "length x = length y" and nx: "torch_norm x \<noteq> 0" and ny: "torch_norm y \<noteq> 0"
  shows "- 1 \<le> row_dot x y / (torch_norm x * torch_norm y)"
    and "row_dot x y / (torch_norm x * torch_norm y) \<le> 1"
    and "2 * atan2
           (sqrt (torch_norm y * torch_norm y * sum_list (map (\<lambda>a. a * a) x)
                  - 2 * (torch_norm x * torch_norm y) * row_dot x y
                  + torch_norm x * torch_norm x * sum_list (map (\<lambda>a. a * a) y)))
           (sqrt (torch_norm y * torch_norm y * sum_list (map (\<lambda>a. a * a) x)
                  + 2 * (torch_norm x * torch_norm y) * row_dot x y
                  + torch_norm x * torch_norm x * sum_list (map (\<lambda>a. a * a) y)))
         = arccos (row_dot x y / (torch_norm x * torch_norm y))"
proof -
  define a where "a = torch_norm x"
  define b where "b = torch_norm y"
  define c where "c = row_dot x y / (a * b)"
  define t where "t = arccos c / 2"
  have a: "0 < a" and b: "0 < b"
    using nx ny torch_norm_nonneg [of x] torch_norm_nonneg [of y] by (simp_all add: a_def b_def)
  have ab: "0 < a * b" using a b by simp
  have dot: "row_dot x y = c * (a * b)" using a b by (simp add: c_def)
  have sx: "sum_list (map (\<lambda>a. a * a) x) = a * a" and sy: "sum_list (map (\<lambda>a. a * a) y) = b * b"
    by (simp_all add: a_def b_def torch_norm_sq)
  have s1: "b * b * (a * a) - 2 * (a * b) * (c * (a * b)) + a * a * (b * b) = 2 * (a * b)\<^sup>2 * (1 - c)"
    and s2: "b * b * (a * a) + 2 * (a * b) * (c * (a * b)) + a * a * (b * b) = 2 * (a * b)\<^sup>2 * (1 + c)"
    by (simp_all add: power2_eq_square algebra_simps)
  have e1: "sum_list (map (\<lambda>c. c * c) (map2 (\<lambda>u w. b * u - a * w) x y)) = 2 * (a * b)\<^sup>2 * (1 - c)"
    unfolding combination_sums(1) [OF len] sx sy dot by (rule s1)
  have e2: "sum_list (map (\<lambda>c. c * c) (map2 (\<lambda>u w. b * u + a * w) x y)) = 2 * (a * b)\<^sup>2 * (1 + c)"
    unfolding combination_sums(2) [OF len] sx sy dot by (rule s2)
  have "0 \<le> 2 * (a * b)\<^sup>2 * (1 - c)"
    using sum_sq_nonneg [of "map2 (\<lambda>u w. b * u - a * w) x y"] unfolding e1 .
  moreover have "0 \<le> 2 * (a * b)\<^sup>2 * (1 + c)"
    using sum_sq_nonneg [of "map2 (\<lambda>u w. b * u + a * w) x y"] unfolding e2 .
  ultimately have c: "- 1 \<le> c" "c \<le> 1"
    using a b by (auto simp add: zero_le_mult_iff)
  have t: "0 \<le> t" "t \<le> pi / 2"
    using arccos_bounded [OF c] by (simp_all add: t_def)
  have cos2t: "cos (2 * t) = c" using c by (simp add: t_def)
  have st: "0 \<le> sin t" using t by (intro sin_ge_zero) (simp_all add: pi_ge_zero)
  have ct: "0 \<le> cos t" using t by (intro cos_ge_zero) simp_all
  have "1 - c = 2 * (sin t)\<^sup>2" using cos_double_sin [of t] cos2t by simp
  then have "sqrt (2 * (a * b)\<^sup>2 * (1 - c)) = sqrt ((2 * (a * b) * sin t)\<^sup>2)"
    by (simp add: power_mult_distrib)
  also have "\<dots> = 2 * (a * b) * sin t" using st ab by simp
  finally have arg1: "sqrt (2 * (a * b)\<^sup>2 * (1 - c)) = 2 * (a * b) * sin t" .
  have "1 + c = 2 * (cos t)\<^sup>2" using cos_double_cos [of t] cos2t by simp
  then have "sqrt (2 * (a * b)\<^sup>2 * (1 + c)) = sqrt ((2 * (a * b) * cos t)\<^sup>2)"
    by (simp add: power_mult_distrib)
  also have "\<dots> = 2 * (a * b) * cos t" using ct ab by simp
  finally have arg2: "sqrt (2 * (a * b)\<^sup>2 * (1 + c)) = 2 * (a * b) * cos t" .
  have angle: "2 * atan2 (2 * (a * b) * sin t) (2 * (a * b) * cos t) = arccos c"
    using atan2_half_angle [OF t, of "2 * (a * b)"] ab by (simp add: t_def)
  show "- 1 \<le> row_dot x y / (torch_norm x * torch_norm y)"
    and "row_dot x y / (torch_norm x * torch_norm y) \<le> 1"
    using c by (simp_all add: c_def a_def b_def)
  show "2 * atan2
           (sqrt (torch_norm y * torch_norm y * sum_list (map (\<lambda>a. a * a) x)
                  - 2 * (torch_norm x * torch_norm y) * row_dot x y
                  + torch_norm x * torch_norm x * sum_list (map (\<lambda>a. a * a) y)))
           (sqrt (torch_norm y * torch_norm y * sum_list (map (\<lambda>a. a * a) x)
                  + 2 * (torch_norm x * torch_norm y) * row_dot x y
                  + torch_norm x * torch_norm x * sum_list (map (\<lambda>a. a * a) y)))
         = arccos (row_dot x y / (torch_norm x * torch_norm y))"
    unfolding a_def [symmetric] b_def [symmetric] sx sy dot s1 s2 arg1 arg2 angle
    using a b by (simp add: c_def)
qed

text \<open>The values of \<^verbatim>\<open>k_ntk\<close> and \<^verbatim>\<open>k_arccos\<close> where the clamp changes nothing.\<close>

lemma k_ntk_entry_closed:
  assumes nx: "torch_norm x \<noteq> 0" and ny: "torch_norm y \<noteq> 0"
    and c: "- 1 \<le> row_dot x y / (torch_norm x * torch_norm y)"
           "row_dot x y / (torch_norm x * torch_norm y) \<le> 1"
  shows "k_ntk_entry x y variance
         = Fin (torch_norm x * torch_norm y
                * (sin (arccos (row_dot x y / (torch_norm x * torch_norm y)))
                   + (1 + variance) * (pi - arccos (row_dot x y / (torch_norm x * torch_norm y)))
                     * (row_dot x y / (torch_norm x * torch_norm y))) / pi)"
proof -
  have "min (max (row_dot x y / (torch_norm x * torch_norm y)) (- 1)) 1
        = row_dot x y / (torch_norm x * torch_norm y)"
    using c by simp
  then show ?thesis
    using nx ny c by (simp add: k_ntk_entry_def k_ntk_tail_def clamp_cos_def fsub_def)
qed

text \<open>
  On two points of equal length and nonzero norm the device kernel \<^verbatim>\<open>stable_kernel\<close> and
  the formula of the symbolic path both compute the value of \<^verbatim>\<open>k_ntk\<close>.
\<close>

lemma stable_kernel_closed_form:
  assumes len: "length x = length y" and nx: "torch_norm x \<noteq> 0" and ny: "torch_norm y \<noteq> 0"
  shows "Fin (stable_kernel x y variance) = k_ntk_entry x y variance"
proof -
  have nl: "norm_loop x y (0, 0) = (sum_list (map (\<lambda>a. a * a) x), sum_list (map (\<lambda>a. a * a) y))"
    by (simp only: norm_loop_sums [OF len] add_0)
  have al: "arg_loop (torch_norm x) (torch_norm y) x y (0, 0)
            = (torch_norm y * torch_norm y * sum_list (map (\<lambda>a. a * a) x)
                 - 2 * (torch_norm x * torch_norm y) * row_dot x y
                 + torch_norm x * torch_norm x * sum_list (map (\<lambda>a. a * a) y),
               torch_norm y * torch_norm y * sum_list (map (\<lambda>a. a * a) x)
                 + 2 * (torch_norm x * torch_norm y) * row_dot x y
                 + torch_norm x * torch_norm x * sum_list (map (\<lambda>a. a * a) y))"
    by (simp only: arg_loop_sums [OF len] add_0)
  have sk: "stable_kernel x y variance
            = torch_norm x * torch_norm y
                * (sin (arccos (row_dot x y / (torch_norm x * torch_norm y)))
                   + (1 + variance) * (pi - arccos (row_dot x y / (torch_norm x * torch_norm y)))
                     * cos (arccos (row_dot x y / (torch_norm x * torch_norm y)))) / pi"
    by (simp only: stable_kernel_def nl Let_def prod.case torch_norm_def [symmetric] al
        angle_identity(3) [OF len nx ny])
  show ?thesis
    unfolding sk k_ntk_entry_closed [OF nx ny angle_identity(1,2) [OF len nx ny]]
    using angle_identity(1,2) [OF len nx ny] by simp
qed





lemma tensor_T_back:
  assumes "pointset d X" "X = [] \<or> 0 < d"
  shows "tensor_T (ncols (tensor_T d X)) (tensor_T d X) = X"
proof -
  have n: "ncols (tensor_T d X) = length X"
  proof (cases "0 < d")
    case True
    then have "[0..<d] = 0 # [1..<d]" by (simp add: upt_rec)
    then show ?thesis by (simp add: ncols_def tensor_T_def col_def)
  next
    case False
    with assms(2) show ?thesis by (simp add: ncols_def tensor_T_def)
  qed
  have "tensor_T (length X) (tensor_T d X) = map (\<lambda>j. X ! j) [0..<length X]"
    unfolding tensor_T_def [of "length X"]
  proof (rule map_cong [OF refl])
    fix j assume "j \<in> set [0..<length X]"
    then have j: "j < length X" by simp
    then have "length (X ! j) = d" using assms(1) by (simp add: pointset_def list_all_length)
    with j show "col j (tensor_T d X) = X ! j" by (rule col_tensor_T)
  qed
  then show ?thesis by (simp add: n map_nth)
qed

lemma torch_norm_Nil [simp]: "torch_norm [] = 0"
  by (simp add: torch_norm_def)

lemma nonzero_rows_dim:
  assumes "pointset d X" "list_all (\<lambda>x. torch_norm x \<noteq> 0) X"
  shows "X = [] \<or> 0 < d"
proof (cases X)
  case Nil
  then show ?thesis by simp
next
  case (Cons x xs)
  with assms have "length x = d" "torch_norm x \<noteq> 0" by (simp_all add: pointset_def)
  then have "x \<noteq> []" by auto
  with \<open>length x = d\<close> show ?thesis by auto
qed

text \<open>
  On point sets of one feature dimension whose points have nonzero norm, on a machine with
  CuPy and with a block of threads the device accepts, the staged path of the
  neural-tangent class returns the matrix of \<^verbatim>\<open>k_ntk\<close> at the variance of the object.
\<close>

lemma NeuralTangentKernel_staged_env_eq_k_ntk:
  assumes cupy: "cupy"
    and X1: "pointset d X1" "list_all (\<lambda>x. torch_norm x \<noteq> 0) X1"
    and X2: "pointset d X2" "list_all (\<lambda>x. torch_norm x \<noteq> 0) X2"
    and v: "py_float variance = Inr v"
    and launch: "launch_valid (launch_blocks (length X1) (length X2))"
  shows "\<exists>R. NeuralTangentKernel_staged_env cupy variance d X1 X2 = Inr R
             \<and> map (map Fin) R = k_ntk X1 X2 v"
proof -
  define R where "R = map (\<lambda>x1. map (\<lambda>x2. stable_kernel x1 x2 v) X2) X1"
  have tb: "tensor_T (ncols (tensor_T d X2)) (tensor_T d X2) = X2"
    using tensor_T_back [OF X2(1) nonzero_rows_dim [OF X2]] .
  have staged: "NeuralTangentKernel_staged_env cupy variance d X1 X2 = Inr R"
    by (simp add: NeuralTangentKernel_staged_env_def NeuralTangentKernel_apply_env_def
        NeuralTangentKernel_finalize_def cupy v tb launch R_def)
  have entry: "Fin (stable_kernel x y v) = k_ntk_entry x y v"
    if "x \<in> set X1" "y \<in> set X2" for x y
  proof -
    from that X1 X2 have "length x = length y" "torch_norm x \<noteq> 0" "torch_norm y \<noteq> 0"
      by (simp_all add: pointset_def list_all_iff)
    then show ?thesis by (rule stable_kernel_closed_form)
  qed
  have "map (map Fin) R = k_ntk X1 X2 v"
    unfolding R_def k_ntk_def by (simp add: entry)
  with staged show ?thesis by blast
qed

lemma NeuralTangentKernel_staged_eq_k_ntk:
  assumes X1: "pointset d X1" "list_all (\<lambda>x. torch_norm x \<noteq> 0) X1"
    and X2: "pointset d X2" "list_all (\<lambda>x. torch_norm x \<noteq> 0) X2"
    and v: "py_float variance = Inr v"
    and launch: "launch_valid (launch_blocks (length X1) (length X2))"
  shows "\<exists>R. NeuralTangentKernel_staged variance d X1 X2 = Inr R
             \<and> map (map Fin) R = k_ntk X1 X2 v"
proof -
  have "NeuralTangentKernel_staged variance d X1 X2 = NeuralTangentKernel_staged_env True variance d X1 X2"
    by (simp add: NeuralTangentKernel_staged_def NeuralTangentKernel_staged_env_def
        NeuralTangentKernel_apply_def)
  then show ?thesis
    using NeuralTangentKernel_staged_env_eq_k_ntk [OF TrueI X1 X2 v launch] by simp
qed











section \<open>The decay limit\<close>











end
